theory Spec2Isabelle
  imports Complex_Main "HOL-Library.Log_Nat" "HOL-Library.Char_ord"
    "HOL-Library.List_Lexorder" "HOL-Library.Product_Lexorder"
begin

section \<open>Python values\<close>

text \<open>
  The exceptions the modelled statements can raise. A function that can raise returns a
  sum, with the exception on the left.
\<close>

datatype py_error =
  ValueError | TypeError | IndexError | KeyError | AttributeError | OverflowError
  | JSONDecodeError | IntegrityError | ZeroDivisionError

text \<open>
  A Python float is a finite double, given by its exact rational value, an infinity or a
  NaN. \<^verbatim>\<open>json.load\<close> yields the values below: a document is a tree of dictionaries,
  lists, strings, numbers, booleans and \<^verbatim>\<open>None\<close>. A dictionary is the list of its items,
  looked up by key. Strings are sequences of ASCII characters.
\<close>

datatype pyfloat = Finite rat | PosInf | NegInf | NaN

datatype json =
  JNull | JBool bool | JInt int | JFloat pyfloat | JStr string
  | JList "json list" | JObj "(string \<times> json) list"

type_synonym pydict = "(string \<times> json) list"

text \<open>\<^verbatim>\<open>d.get(k, default)\<close> on a dictionary.\<close>

definition dict_get :: "pydict \<Rightarrow> string \<Rightarrow> json \<Rightarrow> json" where
  "dict_get d k dflt = (case map_of d k of Some v \<Rightarrow> v | None \<Rightarrow> dflt)"

text \<open>
  \<^verbatim>\<open>x.get(k, default)\<close> on any value: only a dictionary has the method.
\<close>

fun py_get :: "json \<Rightarrow> string \<Rightarrow> json \<Rightarrow> py_error + json" where
  "py_get (JObj d) k dflt = Inr (dict_get d k dflt)"
| "py_get _ k dflt = Inl AttributeError"

text \<open>The truth value Python gives a value in \<^verbatim>\<open>if x:\<close> and \<^verbatim>\<open>x or y\<close>.\<close>

fun py_truthy :: "json \<Rightarrow> bool" where
  "py_truthy JNull = False"
| "py_truthy (JBool b) = b"
| "py_truthy (JInt n) = (n \<noteq> 0)"
| "py_truthy (JFloat f) = (f \<noteq> Finite 0)"
| "py_truthy (JStr s) = (s \<noteq> [])"
| "py_truthy (JList xs) = (xs \<noteq> [])"
| "py_truthy (JObj d) = (d \<noteq> [])"

subsection \<open>\<^verbatim>\<open>int(...)\<close>\<close>

text \<open>
  The characters \<^verbatim>\<open>str.strip\<close> drops from both ends of a string: among the ASCII
  characters, the codes 9 to 13 and 28 to 32.
\<close>

definition is_py_space :: "char \<Rightarrow> bool" where
  "is_py_space c =
     (let n = (of_char c :: nat) in (9 \<le> n \<and> n \<le> 13) \<or> (28 \<le> n \<and> n \<le> 32))"

text \<open>
  \<^verbatim>\<open>int(s)\<close> on an ASCII string: the blank and the codes 9 to 13 are dropped from both
  ends, one sign is allowed, and the rest must be decimal digits, where single underscores
  may stand between two digits. A numeral of more than 4300 digits is refused. Anything
  else raises \<^verbatim>\<open>ValueError\<close>, here \<open>None\<close>.
\<close>

definition is_int_space :: "char \<Rightarrow> bool" where
  "is_int_space c = (let n = (of_char c :: nat) in (9 \<le> n \<and> n \<le> 13) \<or> n = 32)"

definition max_str_digits :: nat where
  "max_str_digits = 4300"

definition is_digit :: "char \<Rightarrow> bool" where
  "is_digit c = (let n = (of_char c :: nat) in 48 \<le> n \<and> n \<le> 57)"

definition digit_val :: "char \<Rightarrow> int" where
  "digit_val c = int (of_char c) - 48"

definition py_strip :: "string \<Rightarrow> string" where
  "py_strip s = rev (dropWhile is_py_space (rev (dropWhile is_py_space s)))"

fun py_digits :: "bool \<Rightarrow> int \<Rightarrow> string \<Rightarrow> int option" where
  "py_digits prev acc [] = (if prev then Some acc else None)"
| "py_digits prev acc (c # cs) =
     (if is_digit c then py_digits True (10 * acc + digit_val c) cs
      else if c = CHR ''_'' \<and> prev then py_digits False acc cs
      else None)"

definition py_int_of_str :: "string \<Rightarrow> int option" where
  "py_int_of_str s =
     (case rev (dropWhile is_int_space (rev (dropWhile is_int_space s))) of
        [] \<Rightarrow> None
      | c # cs \<Rightarrow>
          if max_str_digits < length (filter is_digit cs) + (if is_digit c then 1 else 0)
          then None
          else if c = CHR ''-'' then map_option uminus (py_digits False 0 cs)
          else if c = CHR ''+'' then py_digits False 0 cs
          else py_digits False 0 (c # cs))"

text \<open>
  \<^verbatim>\<open>int(x)\<close> on a value of a document: a float is truncated towards zero, an infinity
  raises \<^verbatim>\<open>OverflowError\<close>, a NaN and a string that is no numeral raise
  \<^verbatim>\<open>ValueError\<close>, and \<^verbatim>\<open>None\<close>, lists and dictionaries raise \<^verbatim>\<open>TypeError\<close>.
\<close>

definition trunc_rat :: "rat \<Rightarrow> int" where
  "trunc_rat r = (if 0 \<le> r then \<lfloor>r\<rfloor> else \<lceil>r\<rceil>)"

fun py_int :: "json \<Rightarrow> py_error + int" where
  "py_int (JInt n) = Inr n"
| "py_int (JBool b) = Inr (if b then 1 else 0)"
| "py_int (JFloat (Finite r)) = Inr (trunc_rat r)"
| "py_int (JFloat NaN) = Inl ValueError"
| "py_int (JFloat _) = Inl OverflowError"
| "py_int (JStr s) = (case py_int_of_str s of Some n \<Rightarrow> Inr n | None \<Rightarrow> Inl ValueError)"
| "py_int _ = Inl TypeError"

subsection \<open>Equality\<close>

text \<open>
  \<^verbatim>\<open>n == v\<close> for an integer \<open>n\<close>: numbers are compared by value (a boolean counts as 0
  or 1, a float by its exact value), everything else is unequal to an integer.
\<close>

fun py_eq_int :: "int \<Rightarrow> json \<Rightarrow> bool" where
  "py_eq_int n (JInt m) = (n = m)"
| "py_eq_int n (JBool b) = (n = (if b then 1 else 0))"
| "py_eq_int n (JFloat (Finite r)) = (of_int n = r)"
| "py_eq_int n _ = False"

text \<open>
  \<^verbatim>\<open>s == v\<close> where \<open>s\<close> is a form field, a string or \<^verbatim>\<open>None\<close> when the field is
  missing: \<^verbatim>\<open>None\<close> equals \<^verbatim>\<open>None\<close> only, a string equals the same string only.
\<close>

fun py_eq_field :: "string option \<Rightarrow> json \<Rightarrow> bool" where
  "py_eq_field None JNull = True"
| "py_eq_field (Some s) (JStr t) = (s = t)"
| "py_eq_field _ _ = False"

text \<open>\<^verbatim>\<open>v == "literal"\<close>.\<close>

definition py_eq_str :: "json \<Rightarrow> string \<Rightarrow> bool" where
  "py_eq_str v s = py_eq_field (Some s) v"

subsection \<open>Request forms\<close>

text \<open>
  \<^verbatim>\<open>request.form\<close> maps field names to strings; \<^verbatim>\<open>get\<close> gives the first value
  of a field.
\<close>

type_synonym form = "(string \<times> string) list"

definition form_get :: "form \<Rightarrow> string \<Rightarrow> string option" where
  "form_get f k = map_of f k"

definition field_json :: "string option \<Rightarrow> json" where
  "field_json v = (case v of None \<Rightarrow> JNull | Some s \<Rightarrow> JStr s)"

text \<open>\<^verbatim>\<open>int(request.form.get(k, d))\<close> with an integer default \<open>d\<close>.\<close>

definition form_int :: "form \<Rightarrow> string \<Rightarrow> int \<Rightarrow> py_error + int" where
  "form_int f k d =
     (case form_get f k of
        None \<Rightarrow> Inr d
      | Some s \<Rightarrow> (case py_int_of_str s of Some n \<Rightarrow> Inr n | None \<Rightarrow> Inl ValueError))"

subsection \<open>Length and subscript\<close>

text \<open>
  \<^verbatim>\<open>len(x)\<close> and \<^verbatim>\<open>x[i]\<close> with an integer \<open>i\<close>. A negative index counts from the end.
  The keys of a dictionary read from JSON are strings, so an integer is never a key.
\<close>

fun py_len :: "json \<Rightarrow> py_error + int" where
  "py_len (JList xs) = Inr (int (length xs))"
| "py_len (JStr s) = Inr (int (length s))"
| "py_len (JObj d) = Inr (int (length d))"
| "py_len _ = Inl TypeError"

definition seq_index :: "'a list \<Rightarrow> int \<Rightarrow> py_error + 'a" where
  "seq_index xs i =
     (if i < - int (length xs) \<or> int (length xs) \<le> i then Inl IndexError
      else if i < 0 then Inr (xs ! nat (int (length xs) + i))
      else Inr (xs ! nat i))"

fun py_subscript :: "json \<Rightarrow> int \<Rightarrow> py_error + json" where
  "py_subscript (JList xs) i = seq_index xs i"
| "py_subscript (JStr s) i =
     (case seq_index s i of Inl e \<Rightarrow> Inl e | Inr c \<Rightarrow> Inr (JStr [c]))"
| "py_subscript (JObj d) i = Inl KeyError"
| "py_subscript _ i = Inl TypeError"

subsection \<open>Comparison and sorting\<close>

text \<open>
  The comparisons of doubles: a NaN equals nothing and is below nothing.
\<close>

fun float_eq :: "pyfloat \<Rightarrow> pyfloat \<Rightarrow> bool" where
  "float_eq (Finite a) (Finite b) = (a = b)"
| "float_eq PosInf PosInf = True"
| "float_eq NegInf NegInf = True"
| "float_eq _ _ = False"

fun float_lt :: "pyfloat \<Rightarrow> pyfloat \<Rightarrow> bool" where
  "float_lt (Finite a) (Finite b) = (a < b)"
| "float_lt NegInf (Finite b) = True"
| "float_lt NegInf PosInf = True"
| "float_lt (Finite a) PosInf = True"
| "float_lt _ _ = False"

text \<open>
  Integers, booleans and floats are numbers and compare by their exact values.
\<close>

fun py_number :: "json \<Rightarrow> pyfloat option" where
  "py_number (JInt n) = Some (Finite (of_int n))"
| "py_number (JBool b) = Some (Finite (if b then 1 else 0))"
| "py_number (JFloat x) = Some x"
| "py_number _ = None"

text \<open>
  \<^verbatim>\<open>x == y\<close> on two values of a document. Lists are equal when they are equal item by
  item, dictionaries when they have the same keys with equal values. Values of different
  kinds are unequal.
\<close>

fun py_eq :: "json \<Rightarrow> json \<Rightarrow> bool"
  and py_eq_list :: "json list \<Rightarrow> json list \<Rightarrow> bool"
  and py_eq_items :: "(string \<times> json) list \<Rightarrow> (string \<times> json) list \<Rightarrow> bool"
  and py_eq_item :: "string \<Rightarrow> json \<Rightarrow> (string \<times> json) list \<Rightarrow> bool" where
  "py_eq (JStr s) v = (case v of JStr t \<Rightarrow> s = t | _ \<Rightarrow> False)"
| "py_eq JNull v = (case v of JNull \<Rightarrow> True | _ \<Rightarrow> False)"
| "py_eq (JList xs) v = (case v of JList ys \<Rightarrow> py_eq_list xs ys | _ \<Rightarrow> False)"
| "py_eq (JObj d) v =
     (case v of JObj e \<Rightarrow> length d = length e \<and> py_eq_items d e | _ \<Rightarrow> False)"
| "py_eq (JInt n) v =
     (case py_number v of Some y \<Rightarrow> float_eq (Finite (of_int n)) y | None \<Rightarrow> False)"
| "py_eq (JBool b) v =
     (case py_number v of Some y \<Rightarrow> float_eq (Finite (if b then 1 else 0)) y | None \<Rightarrow> False)"
| "py_eq (JFloat x) v = (case py_number v of Some y \<Rightarrow> float_eq x y | None \<Rightarrow> False)"
| "py_eq_list [] ys = (ys = [])"
| "py_eq_list (x # xs) ys =
     (case ys of [] \<Rightarrow> False | y # ys' \<Rightarrow> py_eq x y \<and> py_eq_list xs ys')"
| "py_eq_items [] e = True"
| "py_eq_items ((k, v) # d) e = (py_eq_item k v e \<and> py_eq_items d e)"
| "py_eq_item k v [] = False"
| "py_eq_item k v ((k', v') # e) = (if k = k' then py_eq v v' else py_eq_item k v e)"

text \<open>
  \<^verbatim>\<open>x < y\<close>: numbers compare by value, strings by the codes of their characters, lists
  at the first items that are unequal; every other pair raises \<^verbatim>\<open>TypeError\<close>.
\<close>

fun py_lt :: "json \<Rightarrow> json \<Rightarrow> py_error + bool"
  and py_lt_list :: "json list \<Rightarrow> json list \<Rightarrow> py_error + bool" where
  "py_lt (JStr s) v = (case v of JStr t \<Rightarrow> Inr (s < t) | _ \<Rightarrow> Inl TypeError)"
| "py_lt (JList xs) v = (case v of JList ys \<Rightarrow> py_lt_list xs ys | _ \<Rightarrow> Inl TypeError)"
| "py_lt JNull v = Inl TypeError"
| "py_lt (JObj d) v = Inl TypeError"
| "py_lt (JInt n) v =
     (case py_number v of
        Some y \<Rightarrow> Inr (float_lt (Finite (of_int n)) y)
      | None \<Rightarrow> Inl TypeError)"
| "py_lt (JBool b) v =
     (case py_number v of
        Some y \<Rightarrow> Inr (float_lt (Finite (if b then 1 else 0)) y)
      | None \<Rightarrow> Inl TypeError)"
| "py_lt (JFloat x) v =
     (case py_number v of Some y \<Rightarrow> Inr (float_lt x y) | None \<Rightarrow> Inl TypeError)"
| "py_lt_list [] ys = Inr (ys \<noteq> [])"
| "py_lt_list (x # xs) ys =
     (case ys of
        [] \<Rightarrow> Inr False
      | y # ys' \<Rightarrow> if py_eq x y then py_lt_list xs ys' else py_lt x y)"

text \<open>
  \<^verbatim>\<open>(a, b) < (c, d)\<close> on pairs: the first components that are unequal decide.
\<close>

definition py_lt_pair :: "json \<times> json \<Rightarrow> json \<times> json \<Rightarrow> py_error + bool" where
  "py_lt_pair p q =
     (if \<not> py_eq (fst p) (fst q) then py_lt (fst p) (fst q)
      else if \<not> py_eq (snd p) (snd q) then py_lt (snd p) (snd q)
      else Inr False)"

text \<open>
  \<^verbatim>\<open>xs.sort(key=...)\<close>: a stable sort that compares keys with \<^verbatim>\<open><\<close> only, and raises
  what a comparison raises. When no comparison raises and the keys are totally ordered,
  the result is the one stable sorted list, whatever the algorithm. The model inserts each
  item into the sorted rest of the list, before the first item whose key is not smaller.
\<close>

fun py_insert :: "('k \<Rightarrow> 'k \<Rightarrow> py_error + bool) \<Rightarrow> ('a \<Rightarrow> 'k) \<Rightarrow> 'a \<Rightarrow> 'a list \<Rightarrow> py_error + 'a list" where
  "py_insert lt key x [] = Inr [x]"
| "py_insert lt key x (y # ys) =
     (case lt (key y) (key x) of
        Inl e \<Rightarrow> Inl e
      | Inr b \<Rightarrow>
          if b then (case py_insert lt key x ys of Inl e \<Rightarrow> Inl e | Inr zs \<Rightarrow> Inr (y # zs))
          else Inr (x # y # ys))"

fun py_sort :: "('k \<Rightarrow> 'k \<Rightarrow> py_error + bool) \<Rightarrow> ('a \<Rightarrow> 'k) \<Rightarrow> 'a list \<Rightarrow> py_error + 'a list" where
  "py_sort lt key [] = Inr []"
| "py_sort lt key (x # xs) =
     (case py_sort lt key xs of Inl e \<Rightarrow> Inl e | Inr ys \<Rightarrow> py_insert lt key x ys)"

subsection \<open>Strings and dictionaries\<close>

text \<open>
  \<^verbatim>\<open>s.replace("-", " ")\<close> and \<^verbatim>\<open>s.title()\<close> on an ASCII string: a letter that follows
  no letter is made upper case, a letter that follows a letter lower case.
\<close>

definition replace_hyphens :: "string \<Rightarrow> string" where
  "replace_hyphens s = map (\<lambda>c. if c = CHR ''-'' then CHR '' '' else c) s"

definition is_upper :: "char \<Rightarrow> bool" where
  "is_upper c = (let n = (of_char c :: nat) in 65 \<le> n \<and> n \<le> 90)"

definition is_lower :: "char \<Rightarrow> bool" where
  "is_lower c = (let n = (of_char c :: nat) in 97 \<le> n \<and> n \<le> 122)"

definition to_upper :: "char \<Rightarrow> char" where
  "to_upper c = (if is_lower c then char_of (of_char c - (32 :: nat)) else c)"

definition to_lower :: "char \<Rightarrow> char" where
  "to_lower c = (if is_upper c then char_of (of_char c + (32 :: nat)) else c)"

fun title_from :: "bool \<Rightarrow> string \<Rightarrow> string" where
  "title_from after_letter [] = []"
| "title_from after_letter (c # cs) =
     (if is_lower c \<or> is_upper c
      then (if after_letter then to_lower c else to_upper c) # title_from True cs
      else c # title_from False cs)"

definition py_title :: "string \<Rightarrow> string" where
  "py_title s = title_from False s"

text \<open>
  \<^verbatim>\<open>d.setdefault(k, v)\<close> adds the key at the end when the dictionary has not got it;
  \<^verbatim>\<open>d[k] = v\<close> replaces the value of a key in its place, or adds the key at the end.
\<close>

definition dict_setdefault :: "pydict \<Rightarrow> string \<Rightarrow> json \<Rightarrow> pydict" where
  "dict_setdefault d k v = (if map_of d k = None then d @ [(k, v)] else d)"

fun dict_set :: "pydict \<Rightarrow> string \<Rightarrow> json \<Rightarrow> pydict" where
  "dict_set [] k v = [(k, v)]"
| "dict_set ((k', v') # d) k v = (if k' = k then (k, v) # d else (k', v') # dict_set d k v)"

section \<open>Persisted rows (models.py)\<close>

text \<open>
  The column \<open>status\<close> of \<open>Progress\<close> is an enumeration of three strings; \<open>score\<close> is an
  integer column. Every row the two flows create carries \<open>score = 0\<close>, and no statement of
  the repository stores a null score, so the score is modelled as an integer.
\<close>

datatype progress_status = not_started | started | completed

record progress =
  user_id :: int
  perspective_slug :: string
  lesson_id :: string
  status :: progress_status
  score :: int

text \<open>
  An \<open>Event\<close> row. Its column \<open>meta\<close> is a text column. The value a flow gives for it is
  \<^verbatim>\<open>None\<close>, the text \<^verbatim>\<open>json.dumps\<close> writes for a value, or a Python value as it is.
\<close>

datatype meta_value = MetaNull | MetaText json | MetaObject json

record event =
  ev_user_id :: int
  ev_type :: string
  ev_perspective_slug :: "string option"
  ev_lesson_id :: "string option"
  ev_meta :: meta_value

text \<open>
  What the database takes as the parameter of a text column: \<^verbatim>\<open>None\<close>, a string and a
  number. A dictionary or a list cannot be bound, and the insertion raises.
\<close>

fun text_bindable :: "meta_value \<Rightarrow> bool" where
  "text_bindable MetaNull = True"
| "text_bindable (MetaText v) = True"
| "text_bindable (MetaObject (JObj d)) = False"
| "text_bindable (MetaObject (JList xs)) = False"
| "text_bindable (MetaObject v) = True"

text \<open>
  \<open>Artifact\<close> and \<open>PeerReview\<close> rows. The three ratings carry the comment "1-5 scale" in
  models.py; the table of reviews has a uniqueness constraint on the pair of artifact and
  reviewer.
\<close>

record artifact =
  art_id :: int
  art_user_id :: int
  art_perspective_slug :: string
  art_title :: string
  art_body_text :: string

record peer_review =
  artifact_id :: int
  reviewer_id :: int
  clarity :: int
  logic :: int
  fairness :: int
  comments :: string

text \<open>
  The database: each table is the list of its rows in the order of their insertion.
\<close>

record database =
  progress_rows :: "progress list"
  events :: "event list"
  artifacts :: "artifact list"
  peer_reviews :: "peer_review list"

section \<open>The score ratchet\<close>

text \<open>
  app.py, line 307: \<^verbatim>\<open>progress.score = max(progress.score, score)\<close>.
\<close>

definition ratchetScore :: "progress \<Rightarrow> int \<Rightarrow> progress" where
  "ratchetScore p c = p\<lparr>score := max (score p) c\<rparr>"

text \<open>
  app_perspectives_fix.py, line 158: \<^verbatim>\<open>prog.score = max(prog.score or 0, 100)\<close>.
  On an integer, \<^verbatim>\<open>x or 0\<close> is \<open>x\<close> unless \<open>x\<close> is zero, and then it is \<open>0\<close>.
\<close>

definition py_or_zero :: "int \<Rightarrow> int" where
  "py_or_zero x = (if x \<noteq> 0 then x else 0)"

definition ratchet_fix :: "progress \<Rightarrow> progress" where
  "ratchet_fix p = p\<lparr>score := max (py_or_zero (score p)) 100\<rparr>"

section \<open>Grading a quick check\<close>

subsection \<open>app.py, \<^verbatim>\<open>lesson_detail\<close>, action \<^verbatim>\<open>submit_quiz\<close> (lines 297 to 322)\<close>

record quiz_result =
  correct :: bool
  selected :: int
  correct_answer :: json
  feedback :: json

text \<open>
  \<^verbatim>\<open>log_event\<close> of app.py (lines 104 to 115): the metadata is stored, as its JSON
  text, when it is truthy.
\<close>

definition log_event :: "int \<Rightarrow> string \<Rightarrow> string option \<Rightarrow> string option \<Rightarrow> json option \<Rightarrow> event" where
  "log_event uid event_type slug lid meta =
     \<lparr>ev_user_id = uid, ev_type = event_type, ev_perspective_slug = slug, ev_lesson_id = lid,
      ev_meta = (case meta of
                   None \<Rightarrow> MetaNull
                 | Some m \<Rightarrow> if py_truthy m then MetaText m else MetaNull)\<rparr>"

text \<open>
  The submission is graded against the first quick check of the lesson; no exception is
  caught. The result carries the whole feedback list of the quick check.
\<close>

definition app_submit_quiz ::
  "int \<Rightarrow> string \<Rightarrow> string \<Rightarrow> form \<Rightarrow> pydict \<Rightarrow> progress
   \<Rightarrow> py_error + (progress \<times> event \<times> quiz_result)" where
  "app_submit_quiz uid slug lid f lesson prog =
     (case form_int f ''answer'' (- 1) of
        Inl e \<Rightarrow> Inl e
      | Inr selected_answer \<Rightarrow>
     (case py_subscript (dict_get lesson ''quick_checks'' (JList [JObj []])) 0 of
        Inl e \<Rightarrow> Inl e
      | Inr quick_check \<Rightarrow>
     (case py_get quick_check ''answer_index'' (JInt 0) of
        Inl e \<Rightarrow> Inl e
      | Inr answer \<Rightarrow>
     (let is_correct = py_eq_int selected_answer answer;
          sc = (if is_correct then 100 else 0);
          prog' = ratchetScore prog sc;
          ev = log_event uid ''quiz_attempted'' (Some slug) (Some lid)
                 (Some (JObj [(''correct'', JBool is_correct), (''score'', JInt sc)]))
      in (case py_get quick_check ''feedback'' (JList []) of
            Inl e \<Rightarrow> Inl e
          | Inr fb \<Rightarrow>
              Inr (prog', ev,
                   \<lparr>correct = is_correct, selected = selected_answer,
                    correct_answer = answer, feedback = fb\<rparr>))))))"

subsection \<open>app.py, \<^verbatim>\<open>lesson_detail\<close>, action \<^verbatim>\<open>mark_complete\<close> (lines 345 to 355)\<close>

definition app_mark_complete :: "int \<Rightarrow> string \<Rightarrow> string \<Rightarrow> progress \<Rightarrow> progress \<times> event" where
  "app_mark_complete uid slug lid prog =
     (prog\<lparr>status := completed\<rparr>,
      log_event uid ''lesson_completed'' (Some slug) (Some lid) None)"

subsection \<open>app_perspectives_fix.py, \<^verbatim>\<open>lesson\<close>, action \<^verbatim>\<open>submit_quiz\<close> (lines 146 to 165)\<close>

text \<open>
  \<^verbatim>\<open>_log_event\<close> (lines 72 to 79) adds an event row whose \<open>meta\<close> is the value
  \<^verbatim>\<open>meta or {}\<close> itself, not its JSON text, and commits. When the commit raises, the
  function rolls the insertion back and prints a message. The result is the list of the
  rows stored: the row, or nothing when its \<open>meta\<close> cannot be bound. Every caller passes a
  dictionary.
\<close>

definition fix_log_event :: "int \<Rightarrow> string \<Rightarrow> string option \<Rightarrow> string option \<Rightarrow> json \<Rightarrow> event list" where
  "fix_log_event uid etype slug lid meta =
     (let ev = \<lparr>ev_user_id = uid, ev_type = etype, ev_perspective_slug = slug,
                ev_lesson_id = lid,
                ev_meta = MetaObject (if py_truthy meta then meta else JObj [])\<rparr>
      in if text_bindable (ev_meta ev) then [ev] else [])"

text \<open>
  What the handler did with the submission: graded it (and flashed "Correct!" or "Try
  again"), did nothing because the quick-check index is out of range, or caught an
  exception (and flashed "Could not grade this question.").
\<close>

datatype quiz_outcome = Graded bool | NotGraded | CouldNotGrade py_error

text \<open>
  \<^verbatim>\<open>int(request.form.get("answer", request.form.get("choice_idx", -1)))\<close>.
\<close>

definition fix_choice_idx :: "form \<Rightarrow> py_error + int" where
  "fix_choice_idx f =
     (case form_get f ''answer'' of
        Some s \<Rightarrow> (case py_int_of_str s of Some n \<Rightarrow> Inr n | None \<Rightarrow> Inl ValueError)
      | None \<Rightarrow> form_int f ''choice_idx'' (- 1))"

text \<open>
  The body of the \<^verbatim>\<open>try\<close> up to the grading: \<open>None\<close> when the guard
  \<^verbatim>\<open>0 <= qidx < len(quick_checks)\<close> fails (the length is not taken when \<open>qidx\<close> is
  negative), otherwise the index and the verdict.
\<close>

definition fix_grade :: "form \<Rightarrow> pydict \<Rightarrow> py_error + (int \<times> bool) option" where
  "fix_grade f lesson =
     (case form_int f ''qidx'' 0 of
        Inl e \<Rightarrow> Inl e
      | Inr qidx \<Rightarrow>
     (case fix_choice_idx f of
        Inl e \<Rightarrow> Inl e
      | Inr choice_idx \<Rightarrow>
     (let quick_checks = dict_get lesson ''quick_checks'' (JList []) in
      if \<not> 0 \<le> qidx then Inr None
      else
     (case py_len quick_checks of
        Inl e \<Rightarrow> Inl e
      | Inr n \<Rightarrow>
      if \<not> qidx < n then Inr None
      else
     (case py_subscript quick_checks qidx of
        Inl e \<Rightarrow> Inl e
      | Inr qc \<Rightarrow>
     (case py_get qc ''answer_index'' (JInt (- 1)) of
        Inl e \<Rightarrow> Inl e
      | Inr a \<Rightarrow>
     (case py_int a of
        Inl e \<Rightarrow> Inl e
      | Inr answer \<Rightarrow> Inr (Some (qidx, choice_idx = answer)))))))))"

text \<open>
  The handler: \<^verbatim>\<open>_log_event\<close> is called for every graded submission; the first correct
  answer marks the lesson completed and ratchets the score. The second component is the
  list of the event rows stored.
\<close>

definition fix_submit_quiz ::
  "int \<Rightarrow> string \<Rightarrow> string \<Rightarrow> form \<Rightarrow> pydict \<Rightarrow> progress
   \<Rightarrow> progress \<times> event list \<times> quiz_outcome" where
  "fix_submit_quiz uid slug lid f lesson prog =
     (case fix_grade f lesson of
        Inl e \<Rightarrow> (prog, [], CouldNotGrade e)
      | Inr None \<Rightarrow> (prog, [], NotGraded)
      | Inr (Some (qidx, is_correct)) \<Rightarrow>
          (if is_correct \<and> status prog \<noteq> completed
           then ratchet_fix (prog\<lparr>status := completed\<rparr>) else prog,
           fix_log_event uid ''quiz_attempted'' (Some slug) (Some lid)
             (JObj [(''qidx'', JInt qidx), (''correct'', JBool is_correct)]),
           Graded is_correct))"

section \<open>The Progress row of a lesson visit\<close>

text \<open>
  \<^verbatim>\<open>Progress.query.filter_by(user_id=..., perspective_slug=..., lesson_id=...).first()\<close>:
  the first row of the table with the three columns as given.
\<close>

definition find_progress :: "database \<Rightarrow> int \<Rightarrow> string \<Rightarrow> string \<Rightarrow> progress option" where
  "find_progress db uid slug lid =
     List.find (\<lambda>p. user_id p = uid \<and> perspective_slug p = slug \<and> lesson_id p = lid)
       (progress_rows db)"

definition new_progress :: "int \<Rightarrow> string \<Rightarrow> string \<Rightarrow> progress" where
  "new_progress uid slug lid =
     \<lparr>user_id = uid, perspective_slug = slug, lesson_id = lid, status = started, score = 0\<rparr>"

text \<open>
  app.py, \<^verbatim>\<open>lesson_detail\<close>, lines 269 to 289: when there is no row, one is added and
  the event \<^verbatim>\<open>lesson_started\<close> is logged; an existing row is returned as it is.
\<close>

definition app_get_or_create :: "database \<Rightarrow> int \<Rightarrow> string \<Rightarrow> string \<Rightarrow> database \<times> progress" where
  "app_get_or_create db uid slug lid =
     (case find_progress db uid slug lid of
        Some p \<Rightarrow> (db, p)
      | None \<Rightarrow>
          (db\<lparr>progress_rows := progress_rows db @ [new_progress uid slug lid],
              events := events db @
                [log_event uid ''lesson_started'' (Some slug) (Some lid) None]\<rparr>,
           new_progress uid slug lid))"

text \<open>
  app_perspectives_fix.py, \<^verbatim>\<open>lesson\<close>, lines 138 to 142: when there is no row, one is
  added; no event is logged here.
\<close>

definition fix_ensure_progress :: "database \<Rightarrow> int \<Rightarrow> string \<Rightarrow> string \<Rightarrow> database \<times> progress" where
  "fix_ensure_progress db uid slug lid =
     (case find_progress db uid slug lid of
        Some p \<Rightarrow> (db, p)
      | None \<Rightarrow>
          (db\<lparr>progress_rows := progress_rows db @ [new_progress uid slug lid]\<rparr>,
           new_progress uid slug lid))"

text \<open>
  A \<^verbatim>\<open>GET\<close> request for a lesson that exists, in each flow. In app.py nothing follows
  the lookup of the row but the rendering of the page. In app_perspectives_fix.py every
  request that is not a \<^verbatim>\<open>POST\<close> reaches line 182, which calls \<^verbatim>\<open>_log_event\<close> for
  \<^verbatim>\<open>lesson_started\<close> with an empty dictionary, and then renders the page.
\<close>

definition app_lesson_get :: "database \<Rightarrow> int \<Rightarrow> string \<Rightarrow> string \<Rightarrow> database" where
  "app_lesson_get db uid slug lid = fst (app_get_or_create db uid slug lid)"

definition fix_lesson_get :: "database \<Rightarrow> int \<Rightarrow> string \<Rightarrow> string \<Rightarrow> database" where
  "fix_lesson_get db uid slug lid =
     (let db' = fst (fix_ensure_progress db uid slug lid)
      in db'\<lparr>events := events db' @
               fix_log_event uid ''lesson_started'' (Some slug) (Some lid) (JObj [])\<rparr>)"

text \<open>
  The number of \<^verbatim>\<open>lesson_started\<close> events of a user for a lesson.
\<close>

definition started_events :: "database \<Rightarrow> int \<Rightarrow> string \<Rightarrow> string \<Rightarrow> nat" where
  "started_events db uid slug lid =
     length (filter (\<lambda>e. ev_user_id e = uid \<and> ev_type e = ''lesson_started''
                          \<and> ev_perspective_slug e = Some slug \<and> ev_lesson_id e = Some lid)
               (events db))"

section \<open>Grading a mini-game\<close>

subsection \<open>app.py, \<^verbatim>\<open>lesson_detail\<close>, action \<^verbatim>\<open>submit_minigame\<close> (lines 324 to 343)\<close>

record minigame_result =
  mg_correct :: bool
  mg_selected :: "string option"
  explanation :: json

text \<open>
  The type of the mini-game is read for the event only: every submission is compared with
  \<^verbatim>\<open>correct_option\<close>, which is \<^verbatim>\<open>None\<close> when the mini-game has none.
\<close>

definition app_submit_minigame ::
  "int \<Rightarrow> string \<Rightarrow> string \<Rightarrow> form \<Rightarrow> pydict \<Rightarrow> py_error + (event \<times> minigame_result)" where
  "app_submit_minigame uid slug lid f lesson =
     (let selected_option = form_get f ''minigame_choice'';
          minigame = dict_get lesson ''minigame'' (JObj [])
      in
     (case py_get minigame ''correct_option'' JNull of
        Inl e \<Rightarrow> Inl e
      | Inr correct_option \<Rightarrow>
     (let is_correct = py_eq_field selected_option correct_option in
     (case py_get minigame ''type'' JNull of
        Inl e \<Rightarrow> Inl e
      | Inr game_type \<Rightarrow>
     (case py_get minigame ''explanation'' (JStr []) of
        Inl e \<Rightarrow> Inl e
      | Inr expl \<Rightarrow>
          Inr (log_event uid ''minigame_played'' (Some slug) (Some lid)
                 (Some (JObj [(''game_type'', game_type), (''correct'', JBool is_correct),
                              (''selected'', field_json selected_option)])),
               \<lparr>mg_correct = is_correct, mg_selected = selected_option,
                explanation = expl\<rparr>))))))"

subsection \<open>app_perspectives_fix.py, \<^verbatim>\<open>lesson\<close>, action \<^verbatim>\<open>submit_minigame\<close> (lines 167 to 178)\<close>

text \<open>
  What the handler did: judged a choice (and flashed "nice!" or "close"), took a slider
  value without judging it (and flashed "Thanks for your rating."), or nothing. The first
  component of the result is the list of the event rows stored.
\<close>

datatype minigame_outcome = Judged bool | Thanked | NoOutcome

definition fix_submit_minigame ::
  "int \<Rightarrow> string \<Rightarrow> string \<Rightarrow> form \<Rightarrow> pydict \<Rightarrow> py_error + (event list \<times> minigame_outcome)" where
  "fix_submit_minigame uid slug lid f lesson =
     (let mg = dict_get lesson ''minigame'' JNull in
      if \<not> py_truthy mg then Inr ([], NoOutcome)
      else
     (case py_get mg ''type'' JNull of
        Inl e \<Rightarrow> Inl e
      | Inr ty \<Rightarrow>
      if py_eq_str ty ''choice'' then
       (let picked = form_get f ''picked_option'' in
       (case py_get mg ''correct_option'' JNull of
          Inl e \<Rightarrow> Inl e
        | Inr correct_option \<Rightarrow>
         (let is_correct = py_eq_field picked correct_option in
          Inr (fix_log_event uid ''minigame_played'' (Some slug) (Some lid)
                 (JObj [(''game'', JStr ''choice''), (''picked'', field_json picked),
                        (''correct'', JBool is_correct)]),
               Judged is_correct))))
      else if py_eq_str ty ''slider'' then
       (let v = form_get f ''slider_value'' in
        Inr (fix_log_event uid ''minigame_played'' (Some slug) (Some lid)
               (JObj [(''game'', JStr ''slider''), (''value'', field_json v)]),
             Thanked))
      else Inr ([], NoOutcome)))"

section \<open>The peer review queue (app.py, \<^verbatim>\<open>peer_review_queue\<close>)\<close>







text \<open>
  Lines 412 to 436, action \<^verbatim>\<open>submit_review\<close>. The artifact id of the form is given
  as the integer the column stores, \<open>None\<close> when the form has no such field. The three
  ratings are converted with \<^verbatim>\<open>int\<close> and stored as they are. The commit raises
  \<^verbatim>\<open>OverflowError\<close> when a rating is no signed integer of 64 bits, and
  \<^verbatim>\<open>IntegrityError\<close> when the artifact id is null or when the table already holds a
  review of this artifact by this reviewer; nothing is stored then.
\<close>

definition in_int64 :: "int \<Rightarrow> bool" where
  "in_int64 n = (- (2 ^ 63) \<le> n \<and> n < 2 ^ 63)"

definition submit_review :: "database \<Rightarrow> int \<Rightarrow> int option \<Rightarrow> form \<Rightarrow> py_error + database" where
  "submit_review db uid aid f =
     (case form_int f ''clarity'' 1 of
        Inl e \<Rightarrow> Inl e
      | Inr cl \<Rightarrow>
     (case form_int f ''logic'' 1 of
        Inl e \<Rightarrow> Inl e
      | Inr lo \<Rightarrow>
     (case form_int f ''fairness'' 1 of
        Inl e \<Rightarrow> Inl e
      | Inr fa \<Rightarrow>
     (let cm = py_strip (case form_get f ''comments'' of None \<Rightarrow> [] | Some s \<Rightarrow> s) in
      if \<not> (in_int64 cl \<and> in_int64 lo \<and> in_int64 fa) then Inl OverflowError
      else
     (case aid of
        None \<Rightarrow> Inl IntegrityError
      | Some a \<Rightarrow>
          if \<exists>r \<in> set (peer_reviews db). artifact_id r = a \<and> reviewer_id r = uid
          then Inl IntegrityError
          else Inr (db\<lparr>peer_reviews := peer_reviews db @
                         [\<lparr>artifact_id = a, reviewer_id = uid, clarity = cl, logic = lo,
                           fairness = fa, comments = cm\<rparr>],
                       events := events db @
                         [log_event uid ''peer_review_completed'' None None None]\<rparr>))))))"

section \<open>The content store\<close>

text \<open>
  The directory of the perspectives: its files \<^verbatim>\<open><stem>.json\<close> in the order in which
  \<^verbatim>\<open>glob("*.json")\<close> yields them, each with the value \<^verbatim>\<open>json.load\<close> reads from it,
  or \<open>None\<close> when \<^verbatim>\<open>json.load\<close> raises. A directory that does not exist is created and
  loads like an empty one.
\<close>

type_synonym content_dir = "(string \<times> json option) list"

subsection \<open>app_perspectives_fix.py, \<^verbatim>\<open>_load_all_perspectives\<close> (lines 18 to 42)\<close>

text \<open>
  The body of the \<^verbatim>\<open>try\<close> for one file: the document with its defaults, or \<open>None\<close>
  when an exception is caught and the file is skipped with a printed message. That is so
  when the file cannot be parsed and when the document is no dictionary and so has no
  method \<^verbatim>\<open>setdefault\<close>. The conversion of the order has a \<^verbatim>\<open>try\<close> of its own.
\<close>

definition load_one :: "string \<Rightarrow> json option \<Rightarrow> pydict option" where
  "load_one stem content =
     (case content of
        Some (JObj data) \<Rightarrow>
          (let d1 = dict_setdefault data ''slug'' (JStr stem);
               d2 = dict_setdefault d1 ''title'' (JStr (py_title (replace_hyphens stem)));
               d3 = dict_setdefault d2 ''summary'' (JStr []);
               d4 = dict_set d3 ''order''
                      (JInt (case py_int (dict_get d3 ''order'' (JInt 9999)) of
                               Inr n \<Rightarrow> n
                             | Inl e \<Rightarrow> 9999))
           in Some (dict_setdefault d4 ''lessons'' (JList [])))
      | _ \<Rightarrow> None)"

definition loaded_items :: "content_dir \<Rightarrow> pydict list" where
  "loaded_items dir = List.map_filter (\<lambda>(stem, content). load_one stem content) dir"



fun is_dict :: "json \<Rightarrow> bool" where
  "is_dict (JObj d) = True"
| "is_dict v = False"


text \<open>
  The sort is outside the \<^verbatim>\<open>try\<close>: what a comparison raises leaves the function.
\<close>

definition load_all_perspectives :: "content_dir \<Rightarrow> py_error + pydict list" where
  "load_all_perspectives dir =
     py_sort py_lt_pair
       (\<lambda>x. (dict_get x ''order'' (JInt 9999), dict_get x ''title'' (JStr [])))
       (loaded_items dir)"

subsection \<open>app_perspectives_fix.py, \<^verbatim>\<open>_load_perspective\<close> (lines 44 to 53)\<close>

text \<open>
  The scan of the loaded documents for one whose slug is the given one.
\<close>

definition scan_for_slug :: "content_dir \<Rightarrow> string \<Rightarrow> py_error + json option" where
  "scan_for_slug dir slug =
     (case load_all_perspectives dir of
        Inl e \<Rightarrow> Inl e
      | Inr items \<Rightarrow>
          Inr (map_option JObj
                 (List.find (\<lambda>data. py_eq_str (dict_get data ''slug'' JNull) slug) items)))"

text \<open>
  When the file \<^verbatim>\<open><slug>.json\<close> exists, what \<^verbatim>\<open>json.load\<close> reads from it is returned,
  and what \<^verbatim>\<open>json.load\<close> raises leaves the function; otherwise the documents are scanned.
\<close>

definition load_perspective :: "content_dir \<Rightarrow> string \<Rightarrow> py_error + json option" where
  "load_perspective dir slug =
     (case map_of dir slug of
        Some None \<Rightarrow> Inl JSONDecodeError
      | Some (Some document) \<Rightarrow> Inr (Some document)
      | None \<Rightarrow> scan_for_slug dir slug)"

subsection \<open>app.py, \<^verbatim>\<open>load_perspectives\<close> and \<^verbatim>\<open>get_perspective_by_slug\<close> (lines 46 to 73)\<close>

text \<open>
  Every document that can be parsed is kept as it is; the others are logged. The sort
  takes the key \<^verbatim>\<open>x.get('order', 999)\<close> of every document first, which raises
  \<^verbatim>\<open>AttributeError\<close> for a document that is no dictionary, and then compares the keys.
\<close>

fun order_key :: "json \<Rightarrow> json" where
  "order_key (JObj d) = dict_get d ''order'' (JInt 999)"
| "order_key v = JNull"

definition load_perspectives :: "content_dir \<Rightarrow> py_error + json list" where
  "load_perspectives dir =
     (let perspectives = List.map_filter snd dir
      in if \<not> list_all is_dict perspectives then Inl AttributeError
         else py_sort py_lt order_key perspectives)"

text \<open>
  \<^verbatim>\<open>perspective['slug'] == slug\<close> for each document in turn: a dictionary without the key
  raises \<^verbatim>\<open>KeyError\<close>.
\<close>

fun first_with_slug :: "json list \<Rightarrow> string \<Rightarrow> py_error + json option" where
  "first_with_slug [] slug = Inr None"
| "first_with_slug (JObj d # ps) slug =
     (case map_of d ''slug'' of
        None \<Rightarrow> Inl KeyError
      | Some v \<Rightarrow> if py_eq_str v slug then Inr (Some (JObj d)) else first_with_slug ps slug)"
| "first_with_slug (v # ps) slug = Inl TypeError"

definition get_perspective_by_slug :: "content_dir \<Rightarrow> string \<Rightarrow> py_error + json option" where
  "get_perspective_by_slug dir slug =
     (case load_perspectives dir of
        Inl e \<Rightarrow> Inl e
      | Inr perspectives \<Rightarrow> first_with_slug perspectives slug)"

section \<open>Completion percentage\<close>

subsection \<open>Arithmetic on doubles\<close>

text \<open>
  A finite double is the rational it stands for. Every operation on doubles gives the
  exact result rounded to the nearest number with a significand of 53 bits, a tie going
  to the even significand. The range of the exponent is not modelled: the quotients and
  products of row counts and lesson counts stay far inside it.
\<close>

definition round_half_even :: "rat \<Rightarrow> int" where
  "round_half_even x =
     (let f = \<lfloor>x\<rfloor>; d = x - of_int f
      in if d < 1 / 2 then f else if 1 / 2 < d then f + 1 else if even f then f else f + 1)"

definition pow2 :: "int \<Rightarrow> rat" where
  "pow2 k = (if 0 \<le> k then 2 ^ nat k else 1 / 2 ^ nat (- k))"

text \<open>
  The binary exponent of a positive rational \<open>x\<close>: the \<open>e\<close> with \<open>2\<^sup>e \<le> x < 2\<^sup>e\<^sup>+\<^sup>1\<close>. It
  is the difference of the bit lengths of numerator and denominator, or one less.
\<close>

definition bin_exponent :: "rat \<Rightarrow> int" where
  "bin_exponent x =
     (let (p, q) = quotient_of x; d = bitlen p - bitlen q
      in if pow2 d \<le> x then d else d - 1)"

definition fl :: "rat \<Rightarrow> rat" where
  "fl x =
     (if x = 0 then 0
      else (let u = pow2 (bin_exponent \<bar>x\<bar> - 52) in of_int (round_half_even (x / u)) * u))"

text \<open>
  \<^verbatim>\<open>a / b\<close> on two integers is the correctly rounded quotient and raises
  \<^verbatim>\<open>ZeroDivisionError\<close> for \<open>b = 0\<close>; \<^verbatim>\<open>x * n\<close> on a double and a small integer is the
  rounded product; \<^verbatim>\<open>int(x)\<close> truncates towards zero and \<^verbatim>\<open>round(x)\<close> rounds to the
  nearest integer, a tie going to the even one.
\<close>

definition py_truediv :: "int \<Rightarrow> int \<Rightarrow> py_error + rat" where
  "py_truediv a b = (if b = 0 then Inl ZeroDivisionError else Inr (fl (of_int a / of_int b)))"

definition float_mul_int :: "rat \<Rightarrow> int \<Rightarrow> rat" where
  "float_mul_int x n = fl (x * of_int n)"

definition py_round :: "rat \<Rightarrow> int" where
  "py_round x = round_half_even x"

subsection \<open>app.py, \<^verbatim>\<open>calculate_perspective_progress\<close> (lines 90 to 102)\<close>

text \<open>
  The number of rows of a user for a perspective with the status completed.
\<close>

definition completed_count :: "database \<Rightarrow> int \<Rightarrow> string \<Rightarrow> int" where
  "completed_count db uid slug =
     int (length (filter (\<lambda>p. user_id p = uid \<and> perspective_slug p = slug \<and> status p = completed)
                    (progress_rows db)))"

text \<open>
  The perspective is a document; its slug is given apart, as the string
  \<^verbatim>\<open>perspective['slug']\<close> is compared with the column as. The quotient is multiplied by 100
  and truncated; the number of completed rows is used as it is counted.
\<close>

definition calculate_perspective_progress :: "database \<Rightarrow> int \<Rightarrow> string \<Rightarrow> pydict \<Rightarrow> py_error + int" where
  "calculate_perspective_progress db uid slug perspective =
     (if \<not> py_truthy (dict_get perspective ''lessons'' JNull) then Inr 0
      else
     (case py_len (dict_get perspective ''lessons'' JNull) of
        Inl e \<Rightarrow> Inl e
      | Inr total_lessons \<Rightarrow>
     (let completed_lessons = completed_count db uid slug in
      if 0 < total_lessons then
       (case py_truediv completed_lessons total_lessons of
          Inl e \<Rightarrow> Inl e
        | Inr q \<Rightarrow> Inr (trunc_rat (float_mul_int q 100)))
      else Inr 0)))"

subsection \<open>app_perspectives_fix.py, \<^verbatim>\<open>_compute_progress\<close> (lines 61 to 70)\<close>

definition compute_progress :: "database \<Rightarrow> int \<Rightarrow> string \<Rightarrow> int \<Rightarrow> py_error + int" where
  "compute_progress db uid slug total_lessons =
     (if total_lessons \<le> 0 then Inr 0
      else
     (let count = completed_count db uid slug in
     (case py_truediv (100 * min count total_lessons) total_lessons of
        Inl e \<Rightarrow> Inl e
      | Inr pct \<Rightarrow> Inr (py_round pct))))"

section \<open>Example content\<close>

text \<open>
  A lesson with one quick check of three choices, the second of which is the answer, and
  a Progress row of a learner who has started it.
\<close>

definition example_lesson :: pydict where
  "example_lesson =
     [(''id'', JStr ''l1''),
      (''title'', JStr ''Premises''),
      (''quick_checks'',
       JList [JObj [(''question'', JStr ''Q''),
                    (''choices'', JList [JStr ''A'', JStr ''B'', JStr ''C'']),
                    (''answer_index'', JInt 1),
                    (''feedback'', JList [JStr ''fa'', JStr ''fb'', JStr ''fc''])]])]"

definition example_progress :: progress where
  "example_progress =
     \<lparr>user_id = 1, perspective_slug = ''p'', lesson_id = ''l1'', status = started, score = 0\<rparr>"

text \<open>
  A lesson whose mini-game is a slider: it has no \<^verbatim>\<open>correct_option\<close>.
\<close>

definition example_slider_lesson :: pydict where
  "example_slider_lesson =
     [(''id'', JStr ''l2''),
      (''title'', JStr ''Confidence''),
      (''minigame'',
       JObj [(''type'', JStr ''slider''),
             (''prompt'', JStr ''How sure are you?''),
             (''explanation'', JStr ''E'')])]"

text \<open>
  A lesson whose mini-game is a choice between two options.
\<close>

definition example_choice_lesson :: pydict where
  "example_choice_lesson =
     [(''id'', JStr ''l3''),
      (''title'', JStr ''Fallacies''),
      (''minigame'',
       JObj [(''type'', JStr ''choice''),
             (''options'', JList [JStr ''X'', JStr ''Y'']),
             (''correct_option'', JStr ''Y''),
             (''explanation'', JStr ''E'')])]"

text \<open>
  Three artifacts, one by each of the users 1, 2 and 3, in the order of their creation.
  User 1 has reviewed the second artifact; user 3 has reviewed the first and the second.
\<close>

definition example_artifact :: "int \<Rightarrow> artifact" where
  "example_artifact n =
     \<lparr>art_id = n, art_user_id = n, art_perspective_slug = ''p'', art_title = ''T'',
      art_body_text = ''B''\<rparr>"

definition example_review :: "int \<Rightarrow> int \<Rightarrow> peer_review" where
  "example_review a r =
     \<lparr>artifact_id = a, reviewer_id = r, clarity = 4, logic = 4, fairness = 4,
      comments = []\<rparr>"

definition example_db :: database where
  "example_db =
     \<lparr>progress_rows = [], events = [],
      artifacts = [example_artifact 1, example_artifact 2, example_artifact 3],
      peer_reviews = [example_review 2 1, example_review 1 3, example_review 2 3]\<rparr>"

text \<open>
  The database before anybody has visited a lesson.
\<close>

definition empty_db :: database where
  "empty_db = \<lparr>progress_rows = [], events = [], artifacts = [], peer_reviews = []\<rparr>"

text \<open>
  A perspective with the given number of lessons, and the Progress rows of user 1 who has
  completed the given number of its lessons.
\<close>

definition example_perspective :: "nat \<Rightarrow> pydict" where
  "example_perspective n =
     [(''slug'', JStr ''p''),
      (''title'', JStr ''P''),
      (''lessons'', JList (map (\<lambda>i. JObj [(''id'', JStr (replicate (Suc i) CHR ''l''))]) [0..<n]))]"

definition example_completed_db :: "nat \<Rightarrow> database" where
  "example_completed_db k =
     \<lparr>progress_rows =
        map (\<lambda>i. \<lparr>user_id = 1, perspective_slug = ''p'',
                   lesson_id = replicate (Suc i) CHR ''l'', status = completed, score = 100\<rparr>)
          [0..<k],
      events = [], artifacts = [], peer_reviews = []\<rparr>"



text \<open>
  A directory of five files: two documents with titles and orders, one of them with the
  order as a string and with a key of its own; a file that cannot be parsed; a document
  that is a list; and an empty document.
\<close>

definition example_dir :: content_dir where
  "example_dir =
     [(''zeta'', Some (JObj [(''title'', JStr ''Zeta''), (''order'', JStr ''2''),
                             (''icon'', JStr ''z'')])),
      (''broken'', None),
      (''notes'', Some (JList [])),
      (''my-topic'', Some (JObj [])),
      (''alpha'', Some (JObj [(''slug'', JStr ''a''), (''title'', JStr ''Alpha''),
                              (''order'', JInt 2), (''lessons'', JList [])]))]"

text \<open>
  Two files, each holding the slug that is the stem of the other.
\<close>

definition example_swapped_dir :: content_dir where
  "example_swapped_dir =
     [(''a'', Some (JObj [(''slug'', JStr ''b''), (''title'', JStr ''B'')])),
      (''b'', Some (JObj [(''slug'', JStr ''a''), (''title'', JStr ''A'')]))]"

section \<open>Properties of the score ratchet\<close>

lemma score_ratchetScore: "score (ratchetScore p c) = max (score p) c"
  by (simp add: ratchetScore_def)

lemma score_foldl_ratchetScore:
  "score (foldl ratchetScore p cs) = Max (insert (score p) (set cs))"
proof (induction cs arbitrary: p)
  case Nil
  show ?case by simp
next
  case (Cons c cs)
  have "score (foldl ratchetScore p (c # cs)) = Max (insert (max (score p) c) (set cs))"
    by (simp add: Cons.IH score_ratchetScore)
  also have "\<dots> = Max (insert (score p) (set (c # cs)))"
  proof (cases "set cs = {}")
    case True
    then show ?thesis by (simp add: max.commute)
  next
    case False
    then show ?thesis by (simp add: max.assoc)
  qed
  finally show ?case .
qed

lemma ratchet_fix_is_ratchetScore: "ratchet_fix p = ratchetScore p 100"
  by (simp add: ratchet_fix_def ratchetScore_def py_or_zero_def)

text \<open>
  Claim C8. Whatever the stored score and whatever candidates a sequence of ratchet steps
  submits, the score stored at the end is the maximum of the initial score and all the
  candidates: a value that depends on the set of candidates only, not on their order. One
  step never lowers the score, and the step of the second flow is the ratchet with
  candidate 100.
\<close>

theorem ratchetScore_sequence_max:
  "score (foldl ratchetScore p cs) = Max (insert (score p) (set cs))
   \<and> score p \<le> score (ratchetScore p c)
   \<and> score p \<le> score (foldl ratchetScore p cs)
   \<and> ratchet_fix p = ratchetScore p 100"
proof -
  have "score p \<le> Max (insert (score p) (set cs))"
    by simp
  then show ?thesis
    by (simp only: score_foldl_ratchetScore score_ratchetScore ratchet_fix_is_ratchetScore)
      simp
qed

section \<open>Properties of quiz grading\<close>

lemma app_submit_quiz_graded:
  assumes "form_int f ''answer'' (- 1) = Inr n"
    and "dict_get lesson ''quick_checks'' (JList [JObj []]) = JList (JObj qc # rest)"
  shows "app_submit_quiz uid slug lid f lesson prog =
     Inr (ratchetScore prog
            (if py_eq_int n (dict_get qc ''answer_index'' (JInt 0)) then 100 else 0),
          log_event uid ''quiz_attempted'' (Some slug) (Some lid)
            (Some (JObj
               [(''correct'', JBool (py_eq_int n (dict_get qc ''answer_index'' (JInt 0)))),
                (''score'',
                 JInt (if py_eq_int n (dict_get qc ''answer_index'' (JInt 0)) then 100 else 0))])),
          \<lparr>correct = py_eq_int n (dict_get qc ''answer_index'' (JInt 0)), selected = n,
           correct_answer = dict_get qc ''answer_index'' (JInt 0),
           feedback = dict_get qc ''feedback'' (JList [])\<rparr>)"
  using assms by (simp add: app_submit_quiz_def seq_index_def Let_def)

lemma app_submit_quiz_status:
  assumes "app_submit_quiz uid slug lid f lesson prog = Inr (p', ev, r)"
  shows "status p' = status prog"
    and "score p' = max (score prog) (if correct r then 100 else 0)"
  using assms
  by (auto simp: app_submit_quiz_def Let_def ratchetScore_def split: sum.splits)

lemma fix_grade_in_range:
  assumes "form_int f ''qidx'' 0 = Inr q" and "fix_choice_idx f = Inr n"
    and "dict_get lesson ''quick_checks'' (JList []) = JList qcs"
    and "0 \<le> q" and "q < int (length qcs)" and "qcs ! nat q = JObj qc"
    and "py_int (dict_get qc ''answer_index'' (JInt (- 1))) = Inr a"
  shows "fix_grade f lesson = Inr (Some (q, n = a))"
  using assms by (simp add: fix_grade_def seq_index_def Let_def)

lemma fix_grade_out_of_range:
  assumes "form_int f ''qidx'' 0 = Inr q" and "fix_choice_idx f = Inr n"
    and "dict_get lesson ''quick_checks'' (JList []) = JList qcs"
    and "q < 0 \<or> int (length qcs) \<le> q"
  shows "fix_grade f lesson = Inr None"
  using assms by (auto simp add: fix_grade_def seq_index_def Let_def)

lemma fix_submit_quiz_graded:
  assumes "fix_grade f lesson = Inr (Some (q, c))"
  shows "fix_submit_quiz uid slug lid f lesson prog =
     (if c \<and> status prog \<noteq> completed then ratchet_fix (prog\<lparr>status := completed\<rparr>) else prog,
      fix_log_event uid ''quiz_attempted'' (Some slug) (Some lid)
        (JObj [(''qidx'', JInt q), (''correct'', JBool c)]),
      Graded c)"
  using assms by (simp add: fix_submit_quiz_def)

lemma fix_submit_quiz_status:
  assumes "fix_grade f lesson = Inr (Some (q, c))"
  shows "status (fst (fix_submit_quiz uid slug lid f lesson prog)) =
           (if c then completed else status prog)"
  using assms by (simp add: fix_submit_quiz_def ratchet_fix_def)

text \<open>
  Claim C1 as stated fails. With three choices and the selected index 7, app.py does not
  fail: it grades the submission as incorrect and returns the whole feedback list. With
  one quick check and the quick-check index 5, app_perspectives_fix.py does not fail
  either: it leaves the row alone, logs nothing and reports nothing.
\<close>

theorem gradeQuiz_out_of_range_counterexample:
  "app_submit_quiz 1 ''p'' ''l1'' [(''answer'', ''7'')] example_lesson example_progress =
     Inr (example_progress,
          log_event 1 ''quiz_attempted'' (Some ''p'') (Some ''l1'')
            (Some (JObj [(''correct'', JBool False), (''score'', JInt 0)])),
          \<lparr>correct = False, selected = 7, correct_answer = JInt 1,
           feedback = JList [JStr ''fa'', JStr ''fb'', JStr ''fc'']\<rparr>)
   \<and> fix_submit_quiz 1 ''p'' ''l1'' [(''qidx'', ''5''), (''answer'', ''1'')]
         example_lesson example_progress = (example_progress, [], NotGraded)"
  by code_simp

text \<open>
  Claim C1, amended. Both flows grade a submission as correct exactly when the selected
  index equals the answer index of the quick check, whatever the selected index is: an
  index outside the choices is graded like any other, and nothing raises an out-of-range
  failure. app.py grades against the first quick check (a missing answer index counts as
  0) and returns the whole feedback list of the quick check together with the selected
  index. app_perspectives_fix.py grades against the quick check at \<open>qidx\<close> (a missing
  answer index counts as -1) and returns a verdict only; when \<open>qidx\<close> is outside the
  quick checks it does nothing: no grading, no event, no failure.
\<close>

theorem gradeQuiz_both_flows:
  "(form_int f ''answer'' (- 1) = Inr n
      \<and> dict_get lesson ''quick_checks'' (JList [JObj []]) = JList (JObj qc # rest)
      \<and> dict_get qc ''answer_index'' (JInt 0) = JInt a
    \<longrightarrow> (\<exists>p' ev. app_submit_quiz uid slug lid f lesson prog =
           Inr (p', ev, \<lparr>correct = (n = a), selected = n, correct_answer = JInt a,
                         feedback = dict_get qc ''feedback'' (JList [])\<rparr>)))
   \<and> (form_int f ''qidx'' 0 = Inr q \<and> fix_choice_idx f = Inr n'
      \<and> dict_get lesson ''quick_checks'' (JList []) = JList qcs
      \<and> 0 \<le> q \<and> q < int (length qcs) \<and> qcs ! nat q = JObj qc'
      \<and> py_int (dict_get qc' ''answer_index'' (JInt (- 1))) = Inr a'
    \<longrightarrow> snd (snd (fix_submit_quiz uid slug lid f lesson prog)) = Graded (n' = a'))
   \<and> (form_int f ''qidx'' 0 = Inr q \<and> fix_choice_idx f = Inr n'
      \<and> dict_get lesson ''quick_checks'' (JList []) = JList qcs
      \<and> (q < 0 \<or> int (length qcs) \<le> q)
    \<longrightarrow> fix_submit_quiz uid slug lid f lesson prog = (prog, [], NotGraded))"
proof (intro conjI impI)
  assume h: "form_int f ''answer'' (- 1) = Inr n
      \<and> dict_get lesson ''quick_checks'' (JList [JObj []]) = JList (JObj qc # rest)
      \<and> dict_get qc ''answer_index'' (JInt 0) = JInt a"
  then show "\<exists>p' ev. app_submit_quiz uid slug lid f lesson prog =
           Inr (p', ev, \<lparr>correct = (n = a), selected = n, correct_answer = JInt a,
                         feedback = dict_get qc ''feedback'' (JList [])\<rparr>)"
    using app_submit_quiz_graded [of f n lesson qc rest uid slug lid prog] by simp
next
  assume h: "form_int f ''qidx'' 0 = Inr q \<and> fix_choice_idx f = Inr n'
      \<and> dict_get lesson ''quick_checks'' (JList []) = JList qcs
      \<and> 0 \<le> q \<and> q < int (length qcs) \<and> qcs ! nat q = JObj qc'
      \<and> py_int (dict_get qc' ''answer_index'' (JInt (- 1))) = Inr a'"
  then have "fix_grade f lesson = Inr (Some (q, n' = a'))"
    using fix_grade_in_range [of f q n' lesson qcs qc' a'] by simp
  then show "snd (snd (fix_submit_quiz uid slug lid f lesson prog)) = Graded (n' = a')"
    by (simp add: fix_submit_quiz_graded)
next
  assume h: "form_int f ''qidx'' 0 = Inr q \<and> fix_choice_idx f = Inr n'
      \<and> dict_get lesson ''quick_checks'' (JList []) = JList qcs
      \<and> (q < 0 \<or> int (length qcs) \<le> q)"
  then have "fix_grade f lesson = Inr None"
    using fix_grade_out_of_range [of f q n' lesson qcs] by simp
  then show "fix_submit_quiz uid slug lid f lesson prog = (prog, [], NotGraded)"
    by (simp add: fix_submit_quiz_def)
qed

text \<open>
  The amended claim at concrete submissions: the selected index 2 against the example
  lesson in both flows, and the quick-check index 3 in the second flow.
\<close>

theorem gradeQuiz_both_flows_witness:
  "(\<exists>p' ev. app_submit_quiz 1 ''p'' ''l1'' [(''answer'', ''2'')] example_lesson example_progress =
       Inr (p', ev, \<lparr>correct = False, selected = 2, correct_answer = JInt 1,
                     feedback = JList [JStr ''fa'', JStr ''fb'', JStr ''fc'']\<rparr>))
   \<and> snd (snd (fix_submit_quiz 1 ''p'' ''l1'' [(''answer'', ''2'')] example_lesson
                 example_progress)) = Graded False
   \<and> fix_submit_quiz 1 ''p'' ''l1'' [(''qidx'', ''3''), (''answer'', ''2'')] example_lesson
         example_progress = (example_progress, [], NotGraded)"
proof -
  let ?qc = "[(''question'', JStr ''Q''),
              (''choices'', JList [JStr ''A'', JStr ''B'', JStr ''C'']),
              (''answer_index'', JInt 1),
              (''feedback'', JList [JStr ''fa'', JStr ''fb'', JStr ''fc''])]"
  let ?f = "[(''answer'', ''2'')]"
  let ?g = "[(''qidx'', ''3''), (''answer'', ''2'')]"
  have a1: "form_int ?f ''answer'' (- 1) = Inr 2" by code_simp
  have a2: "dict_get example_lesson ''quick_checks'' (JList [JObj []]) = JList (JObj ?qc # [])"
    by code_simp
  have a3: "dict_get ?qc ''answer_index'' (JInt 0) = JInt 1" by code_simp
  have a4: "dict_get ?qc ''feedback'' (JList []) = JList [JStr ''fa'', JStr ''fb'', JStr ''fc'']"
    by code_simp
  have b1: "form_int ?f ''qidx'' 0 = Inr 0" by code_simp
  have b2: "fix_choice_idx ?f = Inr 2" by code_simp
  have b3: "dict_get example_lesson ''quick_checks'' (JList []) = JList [JObj ?qc]"
    by code_simp
  have b4: "py_int (dict_get ?qc ''answer_index'' (JInt (- 1))) = Inr 1" by code_simp
  have c1: "form_int ?g ''qidx'' 0 = Inr 3" by code_simp
  have c2: "fix_choice_idx ?g = Inr 2" by code_simp
  note t1 = gradeQuiz_both_flows [where f = ?f and n = 2 and lesson = example_lesson
      and qc = ?qc and rest = "[]" and a = 1 and q = 0 and n' = 2 and qcs = "[JObj ?qc]"
      and qc' = ?qc and a' = 1 and uid = 1 and slug = "''p''" and lid = "''l1''"
      and prog = example_progress]
  note t2 = gradeQuiz_both_flows [where f = ?g and n = 2 and lesson = example_lesson
      and qc = ?qc and rest = "[]" and a = 1 and q = 3 and n' = 2 and qcs = "[JObj ?qc]"
      and qc' = ?qc and a' = 1 and uid = 1 and slug = "''p''" and lid = "''l1''"
      and prog = example_progress]
  from t1 a1 a2 a3 a4 have p1: "\<exists>p' ev. app_submit_quiz 1 ''p'' ''l1'' ?f example_lesson example_progress =
       Inr (p', ev, \<lparr>correct = False, selected = 2, correct_answer = JInt 1,
                     feedback = JList [JStr ''fa'', JStr ''fb'', JStr ''fc'']\<rparr>)"
    by simp
  from t1 b1 b2 b3 b4 have p2: "snd (snd (fix_submit_quiz 1 ''p'' ''l1'' ?f example_lesson
                 example_progress)) = Graded False"
    by simp
  from t2 c1 c2 b3 have p3: "fix_submit_quiz 1 ''p'' ''l1'' ?g example_lesson
         example_progress = (example_progress, [], NotGraded)"
    by simp
  from p1 p2 p3 show ?thesis by blast
qed

section \<open>Completion policy of the two grading flows\<close>

text \<open>
  Claim C7 as stated fails. For a started lesson and the correct answer, app.py leaves the
  status at started, and app_perspectives_fix.py sets it to completed. The event row of
  app_perspectives_fix.py carries a dictionary and is not stored.
\<close>

theorem quiz_completion_counterexample:
  "app_submit_quiz 1 ''p'' ''l1'' [(''answer'', ''1'')] example_lesson example_progress =
     Inr (example_progress\<lparr>score := 100\<rparr>,
          log_event 1 ''quiz_attempted'' (Some ''p'') (Some ''l1'')
            (Some (JObj [(''correct'', JBool True), (''score'', JInt 100)])),
          \<lparr>correct = True, selected = 1, correct_answer = JInt 1,
           feedback = JList [JStr ''fa'', JStr ''fb'', JStr ''fc'']\<rparr>)
   \<and> status (example_progress\<lparr>score := 100\<rparr>) = started
   \<and> fix_submit_quiz 1 ''p'' ''l1'' [(''answer'', ''1'')] example_lesson example_progress =
       (example_progress\<lparr>status := completed, score := 100\<rparr>, [], Graded True)
   \<and> status (example_progress\<lparr>status := completed, score := 100\<rparr>) = completed"
  by code_simp

text \<open>
  Claim C7, amended. In app.py a quiz submission never changes the status of the Progress
  row, and the mark-complete action sets it to completed. In app_perspectives_fix.py a
  graded submission sets the status to completed when the answer is correct and leaves it
  when the answer is incorrect. So after a submission that both flows grade as correct,
  the two flows leave the same status exactly when the lesson was completed before.
\<close>

theorem quiz_completion_policy:
  "(app_submit_quiz uid slug lid f lesson prog = Inr (p', ev, r) \<longrightarrow> status p' = status prog)
   \<and> status (fst (app_mark_complete uid slug lid prog)) = completed
   \<and> (fix_grade f lesson = Inr (Some (q, c))
      \<longrightarrow> status (fst (fix_submit_quiz uid slug lid f lesson prog)) =
            (if c then completed else status prog))
   \<and> (app_submit_quiz uid slug lid f lesson prog = Inr (p', ev, r) \<and> correct r
        \<and> fix_grade f lesson = Inr (Some (q, True))
      \<longrightarrow> (status p' = status (fst (fix_submit_quiz uid slug lid f lesson prog)))
            = (status prog = completed))"
proof (intro conjI impI)
  assume "app_submit_quiz uid slug lid f lesson prog = Inr (p', ev, r)"
  then show "status p' = status prog" by (rule app_submit_quiz_status)
next
  show "status (fst (app_mark_complete uid slug lid prog)) = completed"
    by (simp add: app_mark_complete_def)
next
  assume "fix_grade f lesson = Inr (Some (q, c))"
  then show "status (fst (fix_submit_quiz uid slug lid f lesson prog)) =
            (if c then completed else status prog)"
    by (rule fix_submit_quiz_status)
next
  assume h: "app_submit_quiz uid slug lid f lesson prog = Inr (p', ev, r) \<and> correct r
        \<and> fix_grade f lesson = Inr (Some (q, True))"
  then have "status p' = status prog"
    using app_submit_quiz_status(1) by blast
  moreover from h have "status (fst (fix_submit_quiz uid slug lid f lesson prog)) = completed"
    using fix_submit_quiz_status [of f lesson q True] by simp
  ultimately show "(status p' = status (fst (fix_submit_quiz uid slug lid f lesson prog)))
            = (status prog = completed)"
    by simp
qed

text \<open>
  The amended claim at the correct answer to the example lesson, for the started row.
\<close>

theorem quiz_completion_policy_witness:
  "app_submit_quiz 1 ''p'' ''l1'' [(''answer'', ''1'')] example_lesson example_progress =
     Inr (example_progress\<lparr>score := 100\<rparr>,
          log_event 1 ''quiz_attempted'' (Some ''p'') (Some ''l1'')
            (Some (JObj [(''correct'', JBool True), (''score'', JInt 100)])),
          \<lparr>correct = True, selected = 1, correct_answer = JInt 1,
           feedback = JList [JStr ''fa'', JStr ''fb'', JStr ''fc'']\<rparr>)
   \<and> fix_grade [(''answer'', ''1'')] example_lesson = Inr (Some (0, True))
   \<and> status (example_progress\<lparr>score := 100\<rparr>) = status example_progress
   \<and> status (fst (fix_submit_quiz 1 ''p'' ''l1'' [(''answer'', ''1'')] example_lesson
                    example_progress)) = completed
   \<and> status (example_progress\<lparr>score := 100\<rparr>) \<noteq>
       status (fst (fix_submit_quiz 1 ''p'' ''l1'' [(''answer'', ''1'')] example_lesson
                      example_progress))"
proof -
  let ?f = "[(''answer'', ''1'')]"
  let ?ev = "log_event 1 ''quiz_attempted'' (Some ''p'') (Some ''l1'')
            (Some (JObj [(''correct'', JBool True), (''score'', JInt 100)]))"
  let ?r = "\<lparr>correct = True, selected = 1, correct_answer = JInt 1,
           feedback = JList [JStr ''fa'', JStr ''fb'', JStr ''fc'']\<rparr>"
  have h1: "app_submit_quiz 1 ''p'' ''l1'' ?f example_lesson example_progress =
     Inr (example_progress\<lparr>score := 100\<rparr>, ?ev, ?r)"
    by code_simp
  have h2: "fix_grade ?f example_lesson = Inr (Some (0, True))"
    by code_simp
  have h3: "correct ?r" by simp
  have h4: "status example_progress \<noteq> completed"
    by (simp add: example_progress_def)
  note t = quiz_completion_policy [where uid = 1 and slug = "''p''" and lid = "''l1''"
      and f = ?f and lesson = example_lesson and prog = example_progress
      and p' = "example_progress\<lparr>score := 100\<rparr>" and ev = ?ev and r = ?r
      and q = 0 and c = True]
  from t h1 h2 h3 h4 show ?thesis by simp
qed

section \<open>Properties of mini-game grading\<close>

lemma app_submit_minigame_any_type:
  assumes "dict_get lesson ''minigame'' (JObj []) = JObj mg"
  shows "app_submit_minigame uid slug lid f lesson =
     Inr (log_event uid ''minigame_played'' (Some slug) (Some lid)
            (Some (JObj [(''game_type'', dict_get mg ''type'' JNull),
                         (''correct'', JBool (py_eq_field (form_get f ''minigame_choice'')
                                                (dict_get mg ''correct_option'' JNull))),
                         (''selected'', field_json (form_get f ''minigame_choice''))])),
          \<lparr>mg_correct = py_eq_field (form_get f ''minigame_choice'')
                         (dict_get mg ''correct_option'' JNull),
           mg_selected = form_get f ''minigame_choice'',
           explanation = dict_get mg ''explanation'' (JStr [])\<rparr>)"
  using assms by (simp add: app_submit_minigame_def Let_def)

text \<open>
  Claim C9 at a slider mini-game. app.py compares every submission with
  \<^verbatim>\<open>correct_option\<close>, whatever the type of the mini-game: a slider has no correct option
  and its form has no field \<^verbatim>\<open>minigame_choice\<close>, so \<^verbatim>\<open>None\<close> is compared with
  \<^verbatim>\<open>None\<close> and the slider submission is judged correct; the event it stores says so
  and does not hold the slider value. app_perspectives_fix.py judges nothing, but the
  event row that holds the value carries a dictionary and is not stored: no flow records
  the value.
\<close>

theorem gradeMinigame_slider_judged:
  "app_submit_minigame 1 ''p'' ''l2'' [(''slider_value'', ''7'')] example_slider_lesson =
     Inr (log_event 1 ''minigame_played'' (Some ''p'') (Some ''l2'')
            (Some (JObj [(''game_type'', JStr ''slider''), (''correct'', JBool True),
                         (''selected'', JNull)])),
          \<lparr>mg_correct = True, mg_selected = None, explanation = JStr ''E''\<rparr>)
   \<and> fix_submit_minigame 1 ''p'' ''l2'' [(''slider_value'', ''7'')] example_slider_lesson =
       Inr ([], Thanked)"
  by code_simp

section \<open>Properties of the peer review queue\<close>

text \<open>
  Claim C4 at ratings outside the scale. The ratings 9, 0 and -3 for an artifact the
  reviewer has not reviewed are stored as they are: nothing checks the scale from 1 to 5
  that models.py documents. A second review of an artifact the reviewer has reviewed
  raises the integrity error of the uniqueness constraint, and nothing is stored.
\<close>

theorem submitReview_out_of_scale_stored:
  "submit_review example_db 1 (Some 3)
       [(''clarity'', ''9''), (''logic'', ''0''), (''fairness'', ''-3''), (''comments'', '' ok '')] =
     Inr (example_db\<lparr>peer_reviews := peer_reviews example_db @
            [\<lparr>artifact_id = 3, reviewer_id = 1, clarity = 9, logic = 0, fairness = - 3,
              comments = ''ok''\<rparr>],
          events := events example_db @
            [log_event 1 ''peer_review_completed'' None None None]\<rparr>)
   \<and> submit_review example_db 1 (Some 2)
       [(''clarity'', ''4''), (''logic'', ''4''), (''fairness'', ''4'')] = Inl IntegrityError"
  by code_simp











section \<open>Properties of the Progress row of a lesson visit\<close>

text \<open>
  In both flows a second lookup returns the row the first one returned or created. In
  app.py the event \<^verbatim>\<open>lesson_started\<close> is logged when the row is created and by no later
  visit. In app_perspectives_fix.py the creation logs nothing; every \<^verbatim>\<open>GET\<close> request
  calls \<^verbatim>\<open>_log_event\<close> for it, with a dictionary that the text column does not take,
  so that no visit stores the event.
\<close>

lemma find_append_new:
  "List.find P xs = None \<Longrightarrow> P x \<Longrightarrow> List.find P (xs @ [x]) = Some x"
  by (induction xs) (auto split: if_splits)

lemma find_progress_created:
  assumes "find_progress db uid slug lid = None"
  shows "find_progress (db\<lparr>progress_rows := progress_rows db @ [new_progress uid slug lid],
                           events := es\<rparr>) uid slug lid = Some (new_progress uid slug lid)"
  using assms unfolding find_progress_def
  by (simp add: find_append_new new_progress_def)

lemma find_progress_ensured:
  assumes "find_progress db uid slug lid = None"
  shows "find_progress (db\<lparr>progress_rows := progress_rows db @ [new_progress uid slug lid]\<rparr>)
           uid slug lid = Some (new_progress uid slug lid)"
  using assms unfolding find_progress_def
  by (simp add: find_append_new new_progress_def)

lemma fix_ensure_progress_again:
  "fix_ensure_progress (fst (fix_ensure_progress db uid slug lid)) uid slug lid =
     fix_ensure_progress db uid slug lid"
proof (cases "find_progress db uid slug lid")
  case None
  then show ?thesis
    by (simp add: fix_ensure_progress_def find_progress_ensured)
next
  case (Some p)
  then show ?thesis by (simp add: fix_ensure_progress_def)
qed

lemma app_get_or_create_again:
  "app_get_or_create (fst (app_get_or_create db uid slug lid)) uid slug lid =
     app_get_or_create db uid slug lid"
proof (cases "find_progress db uid slug lid")
  case None
  then show ?thesis
    by (simp add: app_get_or_create_def find_progress_created)
next
  case (Some p)
  then show ?thesis by (simp add: app_get_or_create_def)
qed

lemma app_get_or_create_new_row:
  "find_progress db uid slug lid = None \<Longrightarrow>
     snd (app_get_or_create db uid slug lid) = new_progress uid slug lid"
  by (simp add: app_get_or_create_def)

lemma started_events_app_lesson_get:
  "started_events (app_lesson_get db uid slug lid) uid slug lid =
     (if find_progress db uid slug lid = None then Suc (started_events db uid slug lid)
      else started_events db uid slug lid)"
  by (auto simp: app_lesson_get_def app_get_or_create_def started_events_def log_event_def)

lemma app_lesson_get_again:
  "app_lesson_get (app_lesson_get db uid slug lid) uid slug lid = app_lesson_get db uid slug lid"
  by (simp add: app_lesson_get_def app_get_or_create_again)

lemma app_lesson_get_visits:
  "((\<lambda>d. app_lesson_get d uid slug lid) ^^ Suc n) db = app_lesson_get db uid slug lid"
  by (induction n) (simp_all add: app_lesson_get_again)

lemma fix_log_event_dictionary: "fix_log_event uid etype slug lid (JObj d) = []"
  by (simp add: fix_log_event_def)

lemma fix_lesson_get_events:
  "events (fix_lesson_get db uid slug lid) = events db"
  by (simp add: fix_lesson_get_def fix_ensure_progress_def fix_log_event_dictionary Let_def
        split: option.split)

lemma started_events_fix_lesson_get:
  "started_events (fix_lesson_get db uid slug lid) uid slug lid = started_events db uid slug lid"
  by (simp add: started_events_def fix_lesson_get_events)

lemma fix_lesson_get_visits:
  "started_events (((\<lambda>d. fix_lesson_get d uid slug lid) ^^ n) db) uid slug lid =
     started_events db uid slug lid"
  by (induction n) (simp_all add: started_events_fix_lesson_get)

text \<open>
  Claim C5 at the visits of a lesson. After one \<^verbatim>\<open>GET\<close> request of user 1 for a lesson,
  and after two, app_perspectives_fix.py has created one Progress row and stored no
  \<^verbatim>\<open>lesson_started\<close> event: the creation of the row logs nothing, and the event of
  line 182 is not stored. app.py has stored the event once.
\<close>

theorem getOrCreate_fix_never_started:
  "progress_rows (fix_lesson_get empty_db 1 ''p'' ''l1'') = [new_progress 1 ''p'' ''l1'']
   \<and> started_events (fix_lesson_get empty_db 1 ''p'' ''l1'') 1 ''p'' ''l1'' = 0
   \<and> progress_rows (fix_lesson_get (fix_lesson_get empty_db 1 ''p'' ''l1'') 1 ''p'' ''l1'') =
       [new_progress 1 ''p'' ''l1'']
   \<and> started_events (fix_lesson_get (fix_lesson_get empty_db 1 ''p'' ''l1'') 1 ''p'' ''l1'')
       1 ''p'' ''l1'' = 0
   \<and> fix_log_event 1 ''lesson_started'' (Some ''p'') (Some ''l1'') (JObj []) = []
   \<and> started_events (app_lesson_get empty_db 1 ''p'' ''l1'') 1 ''p'' ''l1'' = 1
   \<and> started_events (app_lesson_get (app_lesson_get empty_db 1 ''p'' ''l1'') 1 ''p'' ''l1'')
       1 ''p'' ''l1'' = 1"
  by code_simp

section \<open>Properties of the completion percentage\<close>

lemma compute_progress_no_lessons:
  "total_lessons \<le> 0 \<Longrightarrow> compute_progress db uid slug total_lessons = Inr 0"
  by (simp add: compute_progress_def)

lemma calculate_perspective_progress_no_lessons:
  "dict_get perspective ''lessons'' JNull = JList [] \<Longrightarrow>
     calculate_perspective_progress db uid slug perspective = Inr 0"
  by (simp add: calculate_perspective_progress_def)

text \<open>
  Claim C2 at small perspectives. With two of three lessons completed app.py returns 66
  where the rounded percentage is 67, which app_perspectives_fix.py returns. With three
  completed rows for a perspective of two lessons app.py returns 150: it does not cap the
  count, and app_perspectives_fix.py returns 100. With 29 of 100 lessons completed app.py
  returns 28, since the product of the double nearest to 29/100 and 100 is below 29.
  Both return 0 for a perspective without lessons.
\<close>

theorem computePercentComplete_truncated:
  "calculate_perspective_progress (example_completed_db 2) 1 ''p'' (example_perspective 3) = Inr 66
   \<and> compute_progress (example_completed_db 2) 1 ''p'' 3 = Inr 67
   \<and> calculate_perspective_progress (example_completed_db 3) 1 ''p'' (example_perspective 2) = Inr 150
   \<and> compute_progress (example_completed_db 3) 1 ''p'' 2 = Inr 100
   \<and> calculate_perspective_progress (example_completed_db 29) 1 ''p'' (example_perspective 100) = Inr 28
   \<and> compute_progress (example_completed_db 29) 1 ''p'' 100 = Inr 29
   \<and> calculate_perspective_progress (example_completed_db 2) 1 ''p'' (example_perspective 0) = Inr 0
   \<and> compute_progress (example_completed_db 2) 1 ''p'' 0 = Inr 0"
  by code_simp

section \<open>Properties of the content store\<close>



lemma dict_get_some: "map_of d k = Some v \<Longrightarrow> dict_get d k dflt = v"
  by (simp add: dict_get_def)











text \<open>
  Two behaviours next to the claims below. In app_perspectives_fix.py the sort raises when
  two documents of one order have titles that cannot be compared. The loader of app.py
  keeps every document as it is, and raises when a document is no dictionary.
\<close>

lemma load_all_perspectives_titles_incomparable:
  "load_all_perspectives
     [(''a'', Some (JObj [(''title'', JInt 5)])), (''b'', Some (JObj [(''order'', JInt 9999)]))] =
   Inl TypeError"
  by code_simp

lemma load_perspectives_no_defaults:
  "load_perspectives [(''my-topic'', Some (JObj []))] = Inr [JObj []]
   \<and> load_perspectives example_dir = Inl AttributeError"
  by code_simp




text \<open>
  Claim C10. When the directory holds the file \<^verbatim>\<open><slug>.json\<close> and the file can be
  parsed, \<^verbatim>\<open>_load_perspective\<close> returns the document of the file as it is. For the
  empty document of \<^verbatim>\<open>my-topic.json\<close> it returns the empty document, where the scan
  of the loaded documents finds the document with its five defaults. For two files that
  hold each other's stem as their slug it returns, for the slug \<^verbatim>\<open>a\<close>, the document of
  \<^verbatim>\<open>a.json\<close>, whose slug is \<^verbatim>\<open>b\<close>, where the lookup of app.py returns the document
  of \<^verbatim>\<open>b.json\<close>.
\<close>

theorem loadPerspective_fast_path_raw:
  "(map_of dir slug = Some (Some document) \<longrightarrow>
      load_perspective dir slug = Inr (Some document))
   \<and> load_perspective example_dir ''my-topic'' = Inr (Some (JObj []))
   \<and> scan_for_slug example_dir ''my-topic'' =
       Inr (Some (JObj [(''slug'', JStr ''my-topic''), (''title'', JStr ''My Topic''),
                        (''summary'', JStr []), (''order'', JInt 9999),
                        (''lessons'', JList [])]))
   \<and> load_perspective example_swapped_dir ''a'' =
       Inr (Some (JObj [(''slug'', JStr ''b''), (''title'', JStr ''B'')]))
   \<and> get_perspective_by_slug example_swapped_dir ''a'' =
       Inr (Some (JObj [(''slug'', JStr ''a''), (''title'', JStr ''A'')]))"
proof (intro conjI impI)
  assume "map_of dir slug = Some (Some document)"
  then show "load_perspective dir slug = Inr (Some document)"
    by (simp add: load_perspective_def)
qed code_simp+

text \<open>
  The claim at the second of the two files.
\<close>

theorem loadPerspective_fast_path_raw_witness:
  "map_of example_swapped_dir ''b'' = Some (Some (JObj [(''slug'', JStr ''a''), (''title'', JStr ''A'')]))
   \<and> load_perspective example_swapped_dir ''b'' =
       Inr (Some (JObj [(''slug'', JStr ''a''), (''title'', JStr ''A'')]))"
proof -
  have m: "map_of example_swapped_dir ''b'' =
             Some (Some (JObj [(''slug'', JStr ''a''), (''title'', JStr ''A'')]))"
    by code_simp
  with loadPerspective_fast_path_raw [where dir = example_swapped_dir and slug = "''b''"
      and document = "JObj [(''slug'', JStr ''a''), (''title'', JStr ''A'')]"]
  show ?thesis by blast
qed

end
